theory Spec2Isabelle
  imports Main "HOL-Library.Sublist"
begin

section \<open>Data model of the search core\<close>

text \<open>
  Strings are lists of UTF-16 code units below 256, which are the Latin-1 characters. On
  these, \<open>String.prototype.toLowerCase\<close> maps \<open>A\<close>..\<open>Z\<close> and the accented capitals
  U+00C0..U+00DE, the multiplication sign U+00D7 excepted, to the code unit 32 above, and
  leaves every other code unit as it is. Strings with higher code units are not modelled.
\<close>

definition upperCaseUnits :: string where
  "upperCaseUnits =
     ''ABCDEFGHIJKLMNOPQRSTUVWXYZ'' @
     [CHR 0xC0, CHR 0xC1, CHR 0xC2, CHR 0xC3, CHR 0xC4, CHR 0xC5, CHR 0xC6, CHR 0xC7,
      CHR 0xC8, CHR 0xC9, CHR 0xCA, CHR 0xCB, CHR 0xCC, CHR 0xCD, CHR 0xCE, CHR 0xCF,
      CHR 0xD0, CHR 0xD1, CHR 0xD2, CHR 0xD3, CHR 0xD4, CHR 0xD5, CHR 0xD6,
      CHR 0xD8, CHR 0xD9, CHR 0xDA, CHR 0xDB, CHR 0xDC, CHR 0xDD, CHR 0xDE]"

definition lowerCaseUnits :: string where
  "lowerCaseUnits =
     ''abcdefghijklmnopqrstuvwxyz'' @
     [CHR 0xE0, CHR 0xE1, CHR 0xE2, CHR 0xE3, CHR 0xE4, CHR 0xE5, CHR 0xE6, CHR 0xE7,
      CHR 0xE8, CHR 0xE9, CHR 0xEA, CHR 0xEB, CHR 0xEC, CHR 0xED, CHR 0xEE, CHR 0xEF,
      CHR 0xF0, CHR 0xF1, CHR 0xF2, CHR 0xF3, CHR 0xF4, CHR 0xF5, CHR 0xF6,
      CHR 0xF8, CHR 0xF9, CHR 0xFA, CHR 0xFB, CHR 0xFC, CHR 0xFD, CHR 0xFE]"

definition lowerChar :: "char \<Rightarrow> char" where
  "lowerChar c =
     (case map_of (zip upperCaseUnits lowerCaseUnits) c of
        Some l \<Rightarrow> l
      | None \<Rightarrow> c)"

definition toLowerCase :: "string \<Rightarrow> string" where
  "toLowerCase s = map lowerChar s"

text \<open>
  \<open>Story\<close> is declared in \<open>$lib/types\<close>; the search core reads only \<open>story.title\<close>,
  which may be a string, \<open>null\<close> or \<open>undefined\<close>. The remaining fields of a story are
  kept together in \<open>rest\<close>.
\<close>

datatype title = TUndefined | TNull | TString string

record Story =
  title :: title
  rest :: string

text \<open>\<open>batchId?: string\<close>: \<open>None\<close> is an absent \<open>batchId\<close>.\<close>

record SearchResult =
  story :: Story
  batchId :: "string option"

record SearchFilter =
  f_type :: string
  f_value :: string
  f_display :: string
  isValid :: bool

record SearchState =
  query :: string
  filters :: "SearchFilter list"
  results :: "SearchResult list"
  isLoading :: bool
  isLoadingMore :: bool
  hasMore :: bool
  selectedIndex :: int
  totalCount :: int
  currentOffset :: int
  allHistoricalResults :: "SearchResult list"

section \<open>Result merge: \<open>combineResults\<close>\<close>

text \<open>\<open>r.story.title?.toLowerCase()\<close>: \<open>None\<close> is \<open>undefined\<close>.\<close>

definition normalizedTitle :: "SearchResult \<Rightarrow> string option" where
  "normalizedTitle r =
     (case title (story r) of TString s \<Rightarrow> Some (toLowerCase s) | TNull \<Rightarrow> None | TUndefined \<Rightarrow> None)"

text \<open>JavaScript truthiness of a value of type \<open>string | undefined\<close>.\<close>

fun truthy :: "string option \<Rightarrow> bool" where
  "truthy None = False"
| "truthy (Some s) = (s \<noteq> [])"

text \<open>
  The \<open>for (const result of historicalResults)\<close> loop, with the two mutable locals
  \<open>combined\<close> and \<open>existingTitles\<close> as accumulators.
\<close>

fun combineLoop ::
  "SearchResult list \<Rightarrow> SearchResult list \<Rightarrow> string option set \<Rightarrow> SearchResult list" where
  "combineLoop [] combined existingTitles = combined"
| "combineLoop (result # remaining) combined existingTitles =
     (let t = normalizedTitle result in
      if truthy t \<and> t \<notin> existingTitles
      then combineLoop remaining (combined @ [result]) (insert t existingTitles)
      else combineLoop remaining combined existingTitles)"

definition combineResults :: "SearchResult list \<Rightarrow> SearchResult list \<Rightarrow> SearchResult list" where
  "combineResults localResults historicalResults =
     combineLoop historicalResults localResults (set (map normalizedTitle localResults))"

text \<open>
  The merge as the specification words it: walk the historical results in order and emit
  a result when its lower-cased title equals that of no result emitted before it.
\<close>

fun emitUnique :: "SearchResult list \<Rightarrow> SearchResult list \<Rightarrow> SearchResult list" where
  "emitUnique emitted [] = emitted"
| "emitUnique emitted (h # hs) =
     (if normalizedTitle h \<notin> set (map normalizedTitle emitted)
      then emitUnique (emitted @ [h]) hs
      else emitUnique emitted hs)"

text \<open>The same walk, over the historical results that have a non-empty title string.\<close>

definition hasTitle :: "SearchResult \<Rightarrow> bool" where
  "hasTitle r = truthy (normalizedTitle r)"

section \<open>Selection\<close>

text \<open>
  \<open>xs[i]\<close> on a JavaScript array with a numeric index: the element when \<open>i\<close> is an index
  of the array, \<open>undefined\<close> (here \<open>None\<close>) otherwise; it never throws.
\<close>

definition jsIndex :: "'a list \<Rightarrow> int \<Rightarrow> 'a option" where
  "jsIndex xs i = (if 0 \<le> i \<and> i < int (length xs) then Some (xs ! nat i) else None)"

text \<open>
  \<open>this.state.results[this.state.selectedIndex] || null\<close>. A \<open>SearchResult\<close> is an object
  and therefore truthy, so \<open>||\<close> replaces exactly \<open>undefined\<close>; \<open>None\<close> is \<open>null\<close>.
\<close>

definition getSelectedResult :: "SearchState \<Rightarrow> SearchResult option" where
  "getSelectedResult st =
     (case jsIndex (results st) (selectedIndex st) of Some r \<Rightarrow> Some r | None \<Rightarrow> None)"

section \<open>The orchestrator: \<open>SearchService\<close>\<close>

text \<open>
  The service object. \<open>abortController\<close> is a reference (\<open>None\<close> is \<open>null\<close>) into the
  heap of \<open>AbortController\<close> objects, which the in-flight fetches share with the service:
  \<open>aborted ! c\<close> is \<open>signal.aborted\<close> of controller \<open>c\<close>, and \<open>new AbortController()\<close>
  appends a fresh entry.
\<close>

record SearchService =
  state :: SearchState
  abortController :: "nat option"
  requestId :: int
  aborted :: "bool list"

text \<open>
  Collaborators of the service that are declared outside the search core: the feature
  flag \<open>features.historicalSearch\<close>, the constant \<open>DEFAULT_SEARCH_LIMIT\<close> and
  \<open>SearchFilterService.parseInput\<close>.
\<close>

record Env =
  historicalSearch :: bool
  DEFAULT_SEARCH_LIMIT :: int
  parseInput :: "string \<Rightarrow> string \<times> SearchFilter list"

text \<open>\<open>Partial<SearchOptions>\<close>: \<open>None\<close> is an absent property.\<close>

record PartialOptions =
  p_includeLocal :: "bool option"
  p_includeHistorical :: "bool option"
  p_limit :: "int option"
  p_offset :: "int option"
  p_abortSignal :: "nat option"

record SearchOptions =
  includeLocal :: bool
  includeHistorical :: bool
  limit :: int
  offset :: int
  abortSignal :: "nat option"

text \<open>
  One call of \<open>SearchExecutorService.executeSearch\<close>: the query, the filters and the
  options it receives (the corpus arguments are passed through and left out), and the
  envelope its promise resolves to.
\<close>

record ExecutorCall =
  e_query :: string
  e_filters :: "SearchFilter list"
  e_options :: SearchOptions

record ExecutorResult =
  localResults :: "SearchResult list"
  localCount :: int
  historicalResults :: "SearchResult list"
  historicalCount :: int
  moreAvailable :: bool

text \<open>
  What a piece of the service does to the outside: executor calls, the progress callbacks
  (an absent callback is simply not called) and \<open>console.error\<close>.
\<close>

datatype effect =
    CallExecutor ExecutorCall
  | OnLocalComplete "SearchResult list" int
  | OnHistoricalStart
  | OnHistoricalComplete "SearchResult list" int
  | OnMoreLoaded "SearchResult list" int
  | ConsoleError

definition initialState :: SearchState where
  "initialState =
     \<lparr>query = [], filters = [], results = [], isLoading = False, isLoadingMore = False,
      hasMore = False, selectedIndex = 0, totalCount = 0, currentOffset = 0,
      allHistoricalResults = []\<rparr>"

definition newService :: SearchService where
  "newService = \<lparr>state = initialState, abortController = None, requestId = 0, aborted = []\<rparr>"

definition cancelActiveSearch :: "SearchService \<Rightarrow> SearchService" where
  "cancelActiveSearch svc =
     (let heap = (case abortController svc of
                    Some c \<Rightarrow> if c < length (aborted svc) \<and> \<not> aborted svc ! c
                              then (aborted svc)[c := True] else aborted svc
                  | None \<Rightarrow> aborted svc)
      in svc\<lparr>aborted := heap, abortController := None,
              state := (state svc)\<lparr>isLoading := False\<rparr>\<rparr>)"

text \<open>\<open>clear()\<close>; the call \<open>chipService.clear()\<close> that ends it acts on the chip service only.\<close>

definition clear :: "SearchService \<Rightarrow> SearchService" where
  "clear svc = (cancelActiveSearch svc)\<lparr>state := initialState\<rparr>"

definition destroy :: "SearchService \<Rightarrow> SearchService" where
  "destroy svc = cancelActiveSearch svc"

text \<open>
  \<open>updateFromInput\<close>: the state update. The value it returns (filter context and
  suggestions) is computed by the filter service and does not touch the state.
\<close>

definition updateFromInput :: "Env \<Rightarrow> string \<Rightarrow> SearchService \<Rightarrow> SearchService" where
  "updateFromInput env inputText svc =
     (let parsed = parseInput env inputText
      in svc\<lparr>state := (state svc)\<lparr>query := fst parsed, filters := snd parsed\<rparr>\<rparr>)"

text \<open>The filter text rebuilt in \<open>handleChipDeletion\<close>: \<open>type:value\<close>, quoted on a space.\<close>

definition quoteIfSpace :: "string \<Rightarrow> string" where
  "quoteIfSpace v = (if CHR '' '' \<in> set v then [CHR 0x22] @ v @ [CHR 0x22] else v)"

definition filterTextOf :: "SearchFilter \<Rightarrow> string" where
  "filterTextOf f = f_type f @ '':'' @ quoteIfSpace (f_value f)"

text \<open>
  \<open>handleChipDeletion\<close>, given what the chip service answered (\<open>deleted\<close>, \<open>filterText\<close>)
  and the text it holds afterwards.
\<close>

definition handleChipDeletion ::
  "Env \<Rightarrow> bool \<Rightarrow> string option \<Rightarrow> string \<Rightarrow> SearchService \<Rightarrow> SearchService \<times> bool" where
  "handleChipDeletion env deleted filterText newText svc =
     (if deleted then
        (let svc1 = (case filterText of
                       Some ft \<Rightarrow>
                         if ft \<noteq> [] then
                           svc\<lparr>state := (state svc)\<lparr>filters :=
                                 filter (\<lambda>f. filterTextOf f \<noteq> ft) (filters (state svc))\<rparr>\<rparr>
                         else svc
                     | None \<Rightarrow> svc)
         in (updateFromInput env newText svc1, True))
      else (svc, False))"

subsection \<open>\<open>executeSearch\<close>\<close>

text \<open>
  \<open>executeSearch\<close> is asynchronous. Its body up to the first \<open>await\<close> runs at the call;
  the two \<open>.then\<close> handlers run when the promise of the local or of the historical
  executor call resolves; the rest of the body runs when both have settled.
  \<open>Returned\<close> is the early \<open>return []\<close>; \<open>Awaiting rid h\<close> is a call suspended at the
  \<open>await\<close> with \<open>currentRequestId = rid\<close>, \<open>h\<close> telling whether the historical fetch
  was started.
\<close>

datatype callResult = Returned "SearchResult list" | Awaiting int bool

definition searchOptionsOf :: "Env \<Rightarrow> PartialOptions \<Rightarrow> nat \<Rightarrow> SearchOptions" where
  "searchOptionsOf env opts c =
     \<lparr>includeLocal = (case p_includeLocal opts of Some b \<Rightarrow> b | None \<Rightarrow> True),
      includeHistorical = (case p_includeHistorical opts of Some b \<Rightarrow> b | None \<Rightarrow> True),
      limit = (case p_limit opts of Some n \<Rightarrow> n | None \<Rightarrow> DEFAULT_SEARCH_LIMIT env),
      offset = (case p_offset opts of Some n \<Rightarrow> n | None \<Rightarrow> 0),
      abortSignal = (case p_abortSignal opts of Some sg \<Rightarrow> Some sg | None \<Rightarrow> Some c)\<rparr>"

definition executeSearch ::
  "Env \<Rightarrow> PartialOptions \<Rightarrow> SearchService \<Rightarrow> SearchService \<times> effect list \<times> callResult" where
  "executeSearch env opts svc =
     (if query (state svc) = [] \<and> \<not> list_ex isValid (filters (state svc)) then
        (svc\<lparr>state := (state svc)\<lparr>results := [], hasMore := False\<rparr>\<rparr>, [], Returned [])
      else
        (let svc1 = cancelActiveSearch svc;
             c = length (aborted svc1);
             svc2 = svc1\<lparr>aborted := aborted svc1 @ [False],
                        abortController := Some c,
                        state := (state svc1)\<lparr>isLoading := True, currentOffset := 0,
                                               allHistoricalResults := []\<rparr>,
                        requestId := requestId svc1 + 1\<rparr>;
             currentRequestId = requestId svc2;
             searchOptions = searchOptionsOf env opts c;
             localCall = CallExecutor
               \<lparr>e_query = query (state svc2), e_filters = filters (state svc2),
                e_options = searchOptions\<lparr>includeLocal := True, includeHistorical := False\<rparr>\<rparr>;
             canSearchHistorical = (historicalSearch env \<and>
               (3 \<le> length (query (state svc2)) \<or> 0 < length (filters (state svc2))))
         in if includeHistorical searchOptions \<and> canSearchHistorical then
              (svc2,
               [localCall, OnHistoricalStart,
                CallExecutor
                  \<lparr>e_query = query (state svc2), e_filters = filters (state svc2),
                   e_options = searchOptions\<lparr>includeLocal := False, includeHistorical := True\<rparr>\<rparr>],
               Awaiting currentRequestId True)
            else (svc2, [localCall], Awaiting currentRequestId False)))"

text \<open>The handler \<open>localPromise.then(...)\<close> of the call with \<open>currentRequestId = rid\<close>.\<close>

definition localThen ::
  "int \<Rightarrow> ExecutorResult \<Rightarrow> SearchService \<Rightarrow> SearchService \<times> effect list" where
  "localThen rid res svc =
     (if rid = requestId svc then
        (svc\<lparr>state := (state svc)\<lparr>results := localResults res, selectedIndex := 0,
                                   isLoading := False, totalCount := localCount res\<rparr>\<rparr>,
         [OnLocalComplete (localResults res) (localCount res)])
      else (svc, []))"

text \<open>\<open>!r.batchId\<close>: an absent or empty \<open>batchId\<close>.\<close>

definition noBatchId :: "SearchResult \<Rightarrow> bool" where
  "noBatchId r = (case batchId r of None \<Rightarrow> True | Some b \<Rightarrow> b = [])"

text \<open>The handler \<open>historicalPromise.then(...)\<close> of the call with \<open>currentRequestId = rid\<close>.\<close>

definition historicalThen ::
  "int \<Rightarrow> ExecutorResult \<Rightarrow> SearchService \<Rightarrow> SearchService \<times> effect list" where
  "historicalThen rid res svc =
     (if rid = requestId svc then
        (let currentLocalResults = filter noBatchId (results (state svc));
             combined = combineResults currentLocalResults (historicalResults res)
         in (svc\<lparr>state := (state svc)\<lparr>allHistoricalResults := historicalResults res,
                                        results := combined,
                                        hasMore := moreAvailable res,
                                        totalCount := historicalCount res,
                                        currentOffset := 0\<rparr>\<rparr>,
             [OnHistoricalComplete (historicalResults res) (historicalCount res)]))
      else (svc, []))"

text \<open>After both awaits: \<open>this.state.isLoading = false; return this.state.results\<close>.\<close>

definition executeSearchSettled :: "SearchService \<Rightarrow> SearchService \<times> SearchResult list" where
  "executeSearchSettled svc =
     (svc\<lparr>state := (state svc)\<lparr>isLoading := False\<rparr>\<rparr>, results (state svc))"

text \<open>
  The \<open>catch\<close> block, entered when an awaited promise rejected with an error other than
  an \<open>AbortError\<close>; the error is thrown again afterwards.
\<close>

definition executeSearchCatch :: "int \<Rightarrow> SearchService \<Rightarrow> SearchService \<times> effect list" where
  "executeSearchCatch rid svc =
     (if rid = requestId svc
      then (svc\<lparr>state := (state svc)\<lparr>isLoading := False\<rparr>\<rparr>, [ConsoleError])
      else (svc, []))"

subsection \<open>\<open>loadMoreResults\<close>\<close>

text \<open>
  The part before the \<open>await\<close>. \<open>None\<close> is the early \<open>return\<close>; \<open>Some nextOffset\<close> is a
  call suspended on the executor's promise, holding its local \<open>nextOffset\<close>.
\<close>

definition loadMoreResults ::
  "Env \<Rightarrow> SearchService \<Rightarrow> SearchService \<times> effect list \<times> int option" where
  "loadMoreResults env svc =
     (if isLoadingMore (state svc) \<or> \<not> hasMore (state svc) then (svc, [], None)
      else
        (let nextOffset = currentOffset (state svc) + DEFAULT_SEARCH_LIMIT env
         in (svc\<lparr>state := (state svc)\<lparr>isLoadingMore := True\<rparr>\<rparr>,
             [CallExecutor
                \<lparr>e_query = query (state svc), e_filters = filters (state svc),
                 e_options = \<lparr>includeLocal = False, includeHistorical = True,
                              limit = DEFAULT_SEARCH_LIMIT env, offset = nextOffset,
                              abortSignal = abortController svc\<rparr>\<rparr>],
             Some nextOffset)))"

text \<open>The rest of the \<open>try\<close> block and the \<open>finally\<close> block, when the promise resolved.\<close>

definition loadMoreResolved ::
  "int \<Rightarrow> ExecutorResult \<Rightarrow> SearchService \<Rightarrow> SearchService \<times> effect list" where
  "loadMoreResolved nextOffset res svc =
     (svc\<lparr>state := (state svc)\<lparr>
            allHistoricalResults := allHistoricalResults (state svc) @ historicalResults res,
            results := results (state svc) @ historicalResults res,
            currentOffset := nextOffset,
            hasMore := moreAvailable res,
            totalCount := historicalCount res,
            isLoadingMore := False\<rparr>\<rparr>,
      [OnMoreLoaded (historicalResults res) (historicalCount res)])"

text \<open>The \<open>catch\<close> and the \<open>finally\<close> block, when the promise rejected.\<close>

definition loadMoreRejected :: "SearchService \<Rightarrow> SearchService \<times> effect list" where
  "loadMoreRejected svc =
     (svc\<lparr>state := (state svc)\<lparr>isLoadingMore := False\<rparr>\<rparr>, [ConsoleError])"

subsection \<open>\<open>navigateSelection\<close>\<close>

datatype direction = Up | Down

text \<open>The remainder operator \<open>%\<close> on integers: the result has the sign of the dividend.\<close>

definition jsRem :: "int \<Rightarrow> int \<Rightarrow> int" where
  "jsRem a b = sgn a * (\<bar>a\<bar> mod \<bar>b\<bar>)"

definition navigateSelection :: "direction \<Rightarrow> SearchService \<Rightarrow> SearchService" where
  "navigateSelection dir svc =
     (if length (results (state svc)) = 0 then svc
      else if dir = Down then
        svc\<lparr>state := (state svc)\<lparr>selectedIndex :=
              jsRem (selectedIndex (state svc) + 1) (int (length (results (state svc))))\<rparr>\<rparr>
      else
        svc\<lparr>state := (state svc)\<lparr>selectedIndex :=
              (if selectedIndex (state svc) = 0 then int (length (results (state svc))) - 1
               else selectedIndex (state svc) - 1)\<rparr>\<rparr>)"

section \<open>The chip editor: \<open>ContentEditableChipService\<close>\<close>

text \<open>
  The child nodes of the editable element: text nodes, filter chips (an element of class
  \<open>filter-chip\<close> with its \<open>data-filter\<close> and \<open>data-filter-type\<close> attributes and the
  display value \<open>createChip\<close> rendered into it) and other elements with their children.
\<close>

datatype node = TextNode string | Chip string string string | Element "node list"

text \<open>
  \<open>Node.textContent\<close>. For a chip it is the text of the markup written by
  \<open>createChip\<close> (type and display value are taken to contain no markup themselves).
\<close>

definition chipIndent :: "nat \<Rightarrow> string" where
  "chipIndent n = CHR 0x0A # replicate n (CHR '' '')"

fun textContent :: "node \<Rightarrow> string" where
  "textContent (TextNode t) = t"
| "textContent (Chip dataFilter filterType displayValue) =
     chipIndent 6 @ filterType @ '':'' @ chipIndent 6 @ displayValue @ chipIndent 4"
| "textContent (Element children) = concat (map textContent children)"

fun getTextFromNode :: "node \<Rightarrow> string" where
  "getTextFromNode (TextNode t) = t"
| "getTextFromNode (Chip dataFilter filterType displayValue) = []"
| "getTextFromNode (Element children) = concat (map getTextFromNode children)"

record FilterSuggestion =
  s_value :: string
  s_display :: string
  s_label :: string
  isFilterType :: bool

record FilterContext =
  c_type :: string
  startIndex :: int
  fullMatch :: string

text \<open>
  The service object: \<open>element\<close> holds the child nodes of the editable element (\<open>None\<close>
  is a \<open>null\<close> element); \<open>appliedFilters\<close> is the \<open>Map\<close>, in insertion order.
\<close>

record ChipService =
  element :: "node list option"
  appliedFilters :: "(string \<times> SearchFilter) list"

fun mapSet :: "string \<Rightarrow> 'v \<Rightarrow> (string \<times> 'v) list \<Rightarrow> (string \<times> 'v) list" where
  "mapSet k v [] = [(k, v)]"
| "mapSet k v ((k', v') # kvs) = (if k = k' then (k, v) # kvs else (k', v') # mapSet k v kvs)"

definition getText :: "ChipService \<Rightarrow> string" where
  "getText cs =
     (case element cs of
        None \<Rightarrow> []
      | Some children \<Rightarrow>
          concat (map (\<lambda>n. case n of
                              TextNode t \<Rightarrow> t
                            | Chip dataFilter filterType displayValue \<Rightarrow> dataFilter
                            | Element ns \<Rightarrow> getTextFromNode (Element ns)) children))"

definition getAppliedFilters :: "ChipService \<Rightarrow> SearchFilter list" where
  "getAppliedFilters cs = map snd (appliedFilters cs)"

definition chipClear :: "ChipService \<Rightarrow> ChipService" where
  "chipClear cs =
     (case element cs of
        None \<Rightarrow> cs
      | Some children \<Rightarrow> cs\<lparr>element := Some [], appliedFilters := []\<rparr>)"

text \<open>\<open>s.substring(a, b)\<close> and \<open>s.substring(a)\<close> on integer arguments.\<close>

definition clampIndex :: "string \<Rightarrow> int \<Rightarrow> nat" where
  "clampIndex s i = min (nat i) (length s)"

definition substring :: "string \<Rightarrow> int \<Rightarrow> int \<Rightarrow> string" where
  "substring s a b =
     (let lo = min (clampIndex s a) (clampIndex s b); hi = max (clampIndex s a) (clampIndex s b)
      in take (hi - lo) (drop lo s))"

definition substringFrom :: "string \<Rightarrow> int \<Rightarrow> string" where
  "substringFrom s a = drop (clampIndex s a) s"

text \<open>The white space that \<open>String.prototype.trim\<close> removes, among the code units below 256.\<close>

definition jsWhiteSpace :: "char \<Rightarrow> bool" where
  "jsWhiteSpace c =
     (c \<in> set [CHR 0x09, CHR 0x0A, CHR 0x0B, CHR 0x0C, CHR 0x0D, CHR 0x20, CHR 0xA0])"

text \<open>\<open>suggestion.display || suggestion.value\<close>.\<close>

definition displayOf :: "FilterSuggestion \<Rightarrow> string" where
  "displayOf sg = (if s_display sg \<noteq> [] then s_display sg else s_value sg)"

text \<open>The local \<open>completedFilter\<close> of \<open>applyFilterSuggestion\<close>.\<close>

definition completedFilter :: "FilterContext \<Rightarrow> FilterSuggestion \<Rightarrow> string" where
  "completedFilter ctx sg =
     (let needsQuotes = (CHR '' '' \<in> set (s_value sg));
          filterValue = (if needsQuotes then [CHR 0x22] @ s_value sg @ [CHR 0x22] else s_value sg)
      in c_type ctx @ '':'' @ filterValue)"

definition createChip :: "string \<Rightarrow> string \<Rightarrow> string \<Rightarrow> node" where
  "createChip filterType filterText displayValue = Chip filterText filterType displayValue"

definition replacePartialText :: "FilterContext \<Rightarrow> string \<Rightarrow> ChipService \<Rightarrow> ChipService \<times> bool" where
  "replacePartialText ctx newText cs =
     (case element cs of
        None \<Rightarrow> (cs, False)
      | Some children \<Rightarrow>
          (let content = concat (map textContent children);
               beforeFilter = substring content 0 (startIndex ctx);
               afterFilter = substringFrom content (startIndex ctx + int (length (fullMatch ctx)))
           in (cs\<lparr>element := Some
                    ((if beforeFilter \<noteq> [] then [TextNode beforeFilter] else [])
                     @ [TextNode newText]
                     @ (if afterFilter \<noteq> [] then [TextNode afterFilter] else []))\<rparr>,
               True)))"

definition replacePartialTextWithChip ::
  "FilterContext \<Rightarrow> node \<Rightarrow> FilterSuggestion \<Rightarrow> ChipService \<Rightarrow> ChipService \<times> bool" where
  "replacePartialTextWithChip ctx chip sg cs =
     (case element cs of
        None \<Rightarrow> (cs, False)
      | Some children \<Rightarrow>
          (let content = concat (map textContent children);
               beforeFilter = substring content 0 (startIndex ctx);
               afterFilter = substringFrom content (startIndex ctx + int (length (fullMatch ctx)));
               rebuilt = (if beforeFilter \<noteq> [] then [TextNode beforeFilter] else [])
                         @ [chip, TextNode '' '']
                         @ (if list_ex (\<lambda>c. \<not> jsWhiteSpace c) afterFilter
                            then [TextNode afterFilter] else []);
               tracked =
                 (if c_type ctx \<noteq> ''suggestion'' then
                    mapSet (case chip of Chip dataFilter filterType displayValue \<Rightarrow> dataFilter
                                       | TextNode t \<Rightarrow> [] | Element ns \<Rightarrow> [])
                      \<lparr>f_type = c_type ctx, f_value = s_value sg, f_display = displayOf sg,
                       isValid = True\<rparr>
                      (appliedFilters cs)
                  else appliedFilters cs)
           in (cs\<lparr>element := Some rebuilt, appliedFilters := tracked\<rparr>, True)))"

definition applyFilterSuggestion ::
  "FilterSuggestion \<Rightarrow> FilterContext \<Rightarrow> ChipService \<Rightarrow> ChipService \<times> bool" where
  "applyFilterSuggestion sg ctx cs =
     (case element cs of
        None \<Rightarrow> (cs, False)
      | Some children \<Rightarrow>
          if isFilterType sg then replacePartialText ctx (s_value sg) cs
          else replacePartialTextWithChip ctx
                 (createChip (c_type ctx) (completedFilter ctx sg) (displayOf sg)) sg cs)"

section \<open>Runs of the orchestrator\<close>

text \<open>
  What is in flight between two pieces of the service: the executor promises of a search
  call (with its \<open>currentRequestId\<close> and the abort signal handed to the executor), the
  executor promise of a \<open>loadMoreResults\<close> call (with its \<open>nextOffset\<close> and signal), and
  the suspended \<open>executeSearch\<close> call itself.
\<close>

datatype task =
    LocalFetch int "nat option"
  | HistoricalFetch int "nat option"
  | MoreFetch int "nat option"
  | SearchCall int

record World =
  service :: SearchService
  inflight :: "task list"

datatype event =
    UpdateFromInput string
  | ExecuteSearch PartialOptions
  | Resolved task ExecutorResult
  | Cancelled task
  | Failed task
  | SearchSettled int
  | LoadMoreResults
  | NavigateSelection direction
  | Clear
  | Destroy

definition signalAborted :: "SearchService \<Rightarrow> nat option \<Rightarrow> bool" where
  "signalAborted svc sg =
     (case sg of None \<Rightarrow> False | Some c \<Rightarrow> c < length (aborted svc) \<and> aborted svc ! c)"

fun signalOf :: "task \<Rightarrow> nat option" where
  "signalOf (LocalFetch rid sg) = sg"
| "signalOf (HistoricalFetch rid sg) = sg"
| "signalOf (MoreFetch nextOffset sg) = sg"
| "signalOf (SearchCall rid) = None"

fun fetchOf :: "int \<Rightarrow> task \<Rightarrow> bool" where
  "fetchOf rid (LocalFetch r sg) = (r = rid)"
| "fetchOf rid (HistoricalFetch r sg) = (r = rid)"
| "fetchOf rid (MoreFetch nextOffset sg) = False"
| "fetchOf rid (SearchCall r) = False"

fun localFetchOf :: "int \<Rightarrow> task \<Rightarrow> bool" where
  "localFetchOf rid (LocalFetch r sg) = (r = rid)"
| "localFetchOf rid (HistoricalFetch r sg) = False"
| "localFetchOf rid (MoreFetch nextOffset sg) = False"
| "localFetchOf rid (SearchCall r) = False"

fun fetchTasks :: "int \<Rightarrow> effect list \<Rightarrow> task list" where
  "fetchTasks rid [] = []"
| "fetchTasks rid (CallExecutor c # es) =
     (if includeLocal (e_options c) then LocalFetch rid (abortSignal (e_options c))
      else HistoricalFetch rid (abortSignal (e_options c))) # fetchTasks rid es"
| "fetchTasks rid (e # es) = fetchTasks rid es"

text \<open>
  One step of a run: a call of the public interface, or the executor answering a fetch
  in flight. A fetch in flight may resolve whether or not its signal has been aborted
  meanwhile: the local search does not look at the signal, and an answer can be on its
  way when the signal is aborted. A fetch is cancelled (rejects with an \<open>AbortError\<close>)
  only once its signal is aborted; a failure is any other rejection. A failing historical
  fetch is taken to be noticed after the local one was answered, as the \<open>await\<close>s are in
  that order. \<open>None\<close>: the event cannot happen in this world.
\<close>

definition resolveTask :: "task \<Rightarrow> ExecutorResult \<Rightarrow> World \<Rightarrow> World option" where
  "resolveTask t res w =
     (if t \<in> set (inflight w) then
        (case t of
           LocalFetch rid sg \<Rightarrow>
             Some \<lparr>service = fst (localThen rid res (service w)),
                   inflight = remove1 t (inflight w)\<rparr>
         | HistoricalFetch rid sg \<Rightarrow>
             Some \<lparr>service = fst (historicalThen rid res (service w)),
                   inflight = remove1 t (inflight w)\<rparr>
         | MoreFetch nextOffset sg \<Rightarrow>
             Some \<lparr>service = fst (loadMoreResolved nextOffset res (service w)),
                   inflight = remove1 t (inflight w)\<rparr>
         | SearchCall rid \<Rightarrow> None)
      else None)"

definition rejectTask :: "task \<Rightarrow> World \<Rightarrow> World option" where
  "rejectTask t w =
     (case t of
        LocalFetch rid sg \<Rightarrow>
          Some \<lparr>service = (if SearchCall rid \<in> set (inflight w)
                            then fst (executeSearchCatch rid (service w)) else service w),
                inflight = remove1 (SearchCall rid) (remove1 t (inflight w))\<rparr>
      | HistoricalFetch rid sg \<Rightarrow>
          if list_ex (localFetchOf rid) (inflight w) then None
          else Some \<lparr>service = (if SearchCall rid \<in> set (inflight w)
                                 then fst (executeSearchCatch rid (service w)) else service w),
                     inflight = remove1 (SearchCall rid) (remove1 t (inflight w))\<rparr>
      | MoreFetch nextOffset sg \<Rightarrow>
          Some \<lparr>service = fst (loadMoreRejected (service w)), inflight = remove1 t (inflight w)\<rparr>
      | SearchCall rid \<Rightarrow> None)"

definition cancelTask :: "task \<Rightarrow> World \<Rightarrow> World option" where
  "cancelTask t w =
     (case t of
        LocalFetch rid sg \<Rightarrow> Some (w\<lparr>inflight := remove1 t (inflight w)\<rparr>)
      | HistoricalFetch rid sg \<Rightarrow> Some (w\<lparr>inflight := remove1 t (inflight w)\<rparr>)
      | MoreFetch nextOffset sg \<Rightarrow>
          Some \<lparr>service = fst (loadMoreRejected (service w)), inflight = remove1 t (inflight w)\<rparr>
      | SearchCall rid \<Rightarrow> None)"

fun step :: "Env \<Rightarrow> event \<Rightarrow> World \<Rightarrow> World option" where
  "step env (UpdateFromInput inputText) w =
     Some (w\<lparr>service := updateFromInput env inputText (service w)\<rparr>)"
| "step env (ExecuteSearch opts) w =
     (case executeSearch env opts (service w) of
        (svc, effs, Returned rs) \<Rightarrow> Some (w\<lparr>service := svc\<rparr>)
      | (svc, effs, Awaiting rid h) \<Rightarrow>
          Some \<lparr>service = svc, inflight = inflight w @ fetchTasks rid effs @ [SearchCall rid]\<rparr>)"
| "step env (Resolved t res) w = resolveTask t res w"
| "step env (Cancelled t) w =
     (if t \<in> set (inflight w) \<and> signalAborted (service w) (signalOf t) then cancelTask t w
      else None)"
| "step env (Failed t) w = (if t \<in> set (inflight w) then rejectTask t w else None)"
| "step env (SearchSettled rid) w =
     (if SearchCall rid \<in> set (inflight w) \<and> \<not> list_ex (fetchOf rid) (inflight w)
      then Some \<lparr>service = fst (executeSearchSettled (service w)),
                 inflight = remove1 (SearchCall rid) (inflight w)\<rparr>
      else None)"
| "step env LoadMoreResults w =
     (case loadMoreResults env (service w) of
        (svc, effs, None) \<Rightarrow> Some (w\<lparr>service := svc\<rparr>)
      | (svc, effs, Some nextOffset) \<Rightarrow>
          Some \<lparr>service = svc,
                inflight = inflight w @ [MoreFetch nextOffset (abortController (service w))]\<rparr>)"
| "step env (NavigateSelection dir) w =
     Some (w\<lparr>service := navigateSelection dir (service w)\<rparr>)"
| "step env Clear w = Some (w\<lparr>service := clear (service w)\<rparr>)"
| "step env Destroy w = Some (w\<lparr>service := destroy (service w)\<rparr>)"

fun run :: "Env \<Rightarrow> event list \<Rightarrow> World \<Rightarrow> World option" where
  "run env [] w = Some w"
| "run env (e # es) w = (case step env e w of None \<Rightarrow> None | Some w' \<Rightarrow> run env es w')"

definition newWorld :: World where
  "newWorld = \<lparr>service = newService, inflight = []\<rparr>"

section \<open>Example inputs\<close>

text \<open>
  A concrete environment (historical search enabled, a page size of 20, a parser that
  finds no filter syntax) and concrete executor answers, for the example runs below.
\<close>

definition exampleEnv :: Env where
  "exampleEnv =
     \<lparr>historicalSearch = True, DEFAULT_SEARCH_LIMIT = 20, parseInput = (\<lambda>t. (t, []))\<rparr>"

definition noOptions :: PartialOptions where
  "noOptions =
     \<lparr>p_includeLocal = None, p_includeHistorical = None, p_limit = None, p_offset = None,
      p_abortSignal = None\<rparr>"

definition localStory :: "string \<Rightarrow> SearchResult" where
  "localStory t = \<lparr>story = \<lparr>title = TString t, rest = []\<rparr>, batchId = None\<rparr>"

definition historicalStory :: "string \<Rightarrow> SearchResult" where
  "historicalStory t = \<lparr>story = \<lparr>title = TString t, rest = []\<rparr>, batchId = Some ''batch''\<rparr>"

definition localAnswer :: "SearchResult list \<Rightarrow> ExecutorResult" where
  "localAnswer xs =
     \<lparr>localResults = xs, localCount = int (length xs), historicalResults = [],
      historicalCount = 0, moreAvailable = False\<rparr>"

definition historicalAnswer :: "SearchResult list \<Rightarrow> int \<Rightarrow> bool \<Rightarrow> ExecutorResult" where
  "historicalAnswer xs n m =
     \<lparr>localResults = [], localCount = 0, historicalResults = xs, historicalCount = n,
      moreAvailable = m\<rparr>"

text \<open>
  Two searches for \<open>abc\<close> started back to back. \<open>firstSearch\<close> leaves the fetches of
  generation 1 in flight (\<open>generationOneWorld\<close>); the second \<open>executeSearch\<close> leads to
  \<open>generationTwoWorld\<close>; then generation 2 is answered (local, then historical) and the
  selection is moved down once, which leaves the service as \<open>generationTwoService\<close>.
\<close>

definition firstSearch :: "event list" where
  "firstSearch = [UpdateFromInput ''abc'', ExecuteSearch noOptions]"

definition secondAnswered :: "event list" where
  "secondAnswered =
     [Resolved (LocalFetch 2 (Some 1)) (localAnswer [localStory ''Alpha'']),
      Resolved (HistoricalFetch 2 (Some 1))
        (historicalAnswer [historicalStory ''alpha'', historicalStory ''Beta''] 2 False),
      NavigateSelection Down]"

definition generationOneWorld :: World where
  "generationOneWorld =
     \<lparr>service =
        \<lparr>state = initialState\<lparr>query := ''abc'', isLoading := True\<rparr>,
         abortController = Some 0, requestId = 1, aborted = [False]\<rparr>,
      inflight = [LocalFetch 1 (Some 0), HistoricalFetch 1 (Some 0), SearchCall 1]\<rparr>"

definition generationTwoWorld :: World where
  "generationTwoWorld =
     \<lparr>service =
        \<lparr>state = initialState\<lparr>query := ''abc'', isLoading := True\<rparr>,
         abortController = Some 1, requestId = 2, aborted = [True, False]\<rparr>,
      inflight = [LocalFetch 1 (Some 0), HistoricalFetch 1 (Some 0), SearchCall 1,
                  LocalFetch 2 (Some 1), HistoricalFetch 2 (Some 1), SearchCall 2]\<rparr>"

definition generationTwoService :: SearchService where
  "generationTwoService =
     \<lparr>state =
        \<lparr>query = ''abc'', filters = [],
         results = [localStory ''Alpha'', historicalStory ''Beta''],
         isLoading = False, isLoadingMore = False, hasMore = False, selectedIndex = 1,
         totalCount = 2, currentOffset = 0,
         allHistoricalResults = [historicalStory ''alpha'', historicalStory ''Beta'']\<rparr>,
      abortController = Some 1, requestId = 2, aborted = [True, False]\<rparr>"

text \<open>
  The scenario of a late answer: with generation 2 started and not yet answered
  (\<open>generationTwoWorld\<close>), the local and the historical answer of generation 1 arrive.
\<close>

definition lateArrivalRun :: "event list" where
  "lateArrivalRun =
     firstSearch @
     [ExecuteSearch noOptions,
      Resolved (LocalFetch 1 (Some 0)) (localAnswer [localStory ''stale'']),
      Resolved (HistoricalFetch 1 (Some 0)) (historicalAnswer [historicalStory ''late''] 99 True)]"

text \<open>
  A search for \<open>abc\<close> is started and the input is emptied while its fetches are in flight;
  this leaves the service as \<open>busyService\<close>.
\<close>

definition emptiedWhileSearching :: "event list" where
  "emptiedWhileSearching = [UpdateFromInput ''abc'', ExecuteSearch noOptions, UpdateFromInput []]"

definition busyService :: SearchService where
  "busyService =
     \<lparr>state = initialState\<lparr>isLoading := True\<rparr>,
      abortController = Some 0, requestId = 1, aborted = [False]\<rparr>"

text \<open>The answers of the search for \<open>abc\<close>, arriving after the input was emptied.\<close>

definition answersOfFirst :: "event list" where
  "answersOfFirst =
     [Resolved (LocalFetch 1 (Some 0)) (localAnswer [localStory ''stale'']),
      Resolved (HistoricalFetch 1 (Some 0)) (historicalAnswer [historicalStory ''old''] 7 True)]"

text \<open>A search for \<open>abc\<close> is started and \<open>clear()\<close> is called while its fetches are in flight.\<close>

definition clearedWhileSearching :: "event list" where
  "clearedWhileSearching = [UpdateFromInput ''abc'', ExecuteSearch noOptions, Clear]"

text \<open>A settled search whose historical answer announced more pages.\<close>

definition pagingService :: SearchService where
  "pagingService =
     \<lparr>state = initialState\<lparr>query := ''abc'', results := [historicalStory ''one''],
                            hasMore := True, totalCount := 50,
                            allHistoricalResults := [historicalStory ''one'']\<rparr>,
      abortController = Some 0, requestId = 1, aborted = [False]\<rparr>"

text \<open>
  A run in which \<open>loadMoreResults\<close> is called twice while the historical fetch of a
  second search is still outstanding: the first search ended with \<open>hasMore = true\<close>, and
  starting the second search does not reset \<open>hasMore\<close>. No fetch that is answered in this
  run has an aborted signal.
\<close>

definition raceRun :: "event list" where
  "raceRun =
     [UpdateFromInput ''abc'',
      ExecuteSearch noOptions,
      Resolved (LocalFetch 1 (Some 0)) (localAnswer []),
      Resolved (HistoricalFetch 1 (Some 0)) (historicalAnswer [historicalStory ''one''] 50 True),
      SearchSettled 1,
      ExecuteSearch noOptions,
      Resolved (LocalFetch 2 (Some 1)) (localAnswer []),
      LoadMoreResults,
      Resolved (MoreFetch 20 (Some 1)) (historicalAnswer [historicalStory ''two''] 50 True),
      LoadMoreResults,
      Resolved (HistoricalFetch 2 (Some 1)) (historicalAnswer [historicalStory ''one''] 50 True)]"

text \<open>
  A search for \<open>ab\<close> (too short for the historical phase) that finds two stories; the
  second is selected, then the input is emptied and the search is executed again.
\<close>

definition emptiedRun :: "event list" where
  "emptiedRun =
     [UpdateFromInput ''ab'',
      ExecuteSearch noOptions,
      Resolved (LocalFetch 1 (Some 0)) (localAnswer [localStory ''abacus'', localStory ''abbey'']),
      SearchSettled 1,
      NavigateSelection Down,
      UpdateFromInput [],
      ExecuteSearch noOptions]"

text \<open>A value suggestion whose value holds a tab and no space, accepted after \<open>category:a\<close>.\<close>

definition tabSuggestion :: FilterSuggestion where
  "tabSuggestion =
     \<lparr>s_value = [CHR ''a'', CHR 0x09, CHR ''b''], s_display = ''ab'', s_label = ''ab'',
      isFilterType = False\<rparr>"

definition spaceSuggestion :: FilterSuggestion where
  "spaceSuggestion =
     \<lparr>s_value = ''a b'', s_display = ''ab'', s_label = ''ab'', isFilterType = False\<rparr>"

definition categoryContext :: FilterContext where
  "categoryContext = \<lparr>c_type = ''category'', startIndex = 0, fullMatch = ''category:a''\<rparr>"

definition typingChips :: ChipService where
  "typingChips = \<lparr>element = Some [TextNode ''category:a''], appliedFilters = []\<rparr>"

text \<open>Stories with a missing or empty title.\<close>

definition untitled :: "title \<Rightarrow> string option \<Rightarrow> SearchResult" where
  "untitled t b = \<lparr>story = \<lparr>title = t, rest = []\<rparr>, batchId = b\<rparr>"

section \<open>Evaluation rules for the examples\<close>

lemmas example_defs =
  exampleEnv_def noOptions_def localStory_def historicalStory_def localAnswer_def
  historicalAnswer_def untitled_def newWorld_def newService_def initialState_def

lemmas service_defs =
  updateFromInput_def executeSearch_def cancelActiveSearch_def searchOptionsOf_def
  localThen_def historicalThen_def executeSearchSettled_def executeSearchCatch_def
  loadMoreResults_def loadMoreResolved_def loadMoreRejected_def navigateSelection_def
  jsRem_def clear_def destroy_def noBatchId_def Let_def

lemmas run_defs = resolveTask_def rejectTask_def cancelTask_def signalAborted_def

lemmas merge_defs =
  combineResults_def normalizedTitle_def toLowerCase_def lowerChar_def upperCaseUnits_def
  lowerCaseUnits_def

section \<open>Properties of the merge\<close>

lemma toLowerCase_Nil_iff: "toLowerCase s = [] \<longleftrightarrow> s = []"
  by (simp add: toLowerCase_def)

lemma hasTitle_iff: "hasTitle r \<longleftrightarrow> title (story r) \<notin> {TUndefined, TNull, TString []}"
  by (cases "title (story r)")
    (simp_all add: hasTitle_def normalizedTitle_def toLowerCase_Nil_iff)

text \<open>
  The loop keeps \<open>existingTitles\<close> equal to the set of normalized titles of \<open>combined\<close>;
  under that invariant it is the specification's walk over the titled results.
\<close>

lemma combineLoop_emitUnique:
  "existingTitles = set (map normalizedTitle combined) \<Longrightarrow>
   combineLoop hs combined existingTitles = emitUnique combined (filter hasTitle hs)"
proof (induction hs arbitrary: combined existingTitles)
  case Nil
  then show ?case by simp
next
  case (Cons h hs)
  show ?case
  proof (cases "hasTitle h \<and> normalizedTitle h \<notin> existingTitles")
    case True
    have "insert (normalizedTitle h) existingTitles = set (map normalizedTitle (combined @ [h]))"
      using Cons.prems by simp
    from Cons.IH[OF this] True Cons.prems show ?thesis
      by (simp add: hasTitle_def)
  next
    case False
    with Cons.IH[OF Cons.prems] Cons.prems show ?thesis
      by (auto simp: hasTitle_def)
  qed
qed

lemma combineResults_emitUnique:
  "combineResults l h = emitUnique l (filter hasTitle h)"
  unfolding combineResults_def by (rule combineLoop_emitUnique) simp

lemma emitUnique_filter_shape:
  "\<exists>ys. emitUnique emitted (filter P hs) = emitted @ ys \<and> subseq ys hs \<and> list_all P ys"
proof (induction hs arbitrary: emitted)
  case Nil
  then show ?case by simp
next
  case (Cons h hs)
  show ?case
  proof (cases "P h \<and> normalizedTitle h \<notin> set (map normalizedTitle emitted)")
    case True
    from Cons[of "emitted @ [h]"] obtain ys
      where "emitUnique (emitted @ [h]) (filter P hs) = (emitted @ [h]) @ ys"
        "subseq ys hs" "list_all P ys" by blast
    with True show ?thesis by (intro exI[of _ "h # ys"]) simp
  next
    case False
    from Cons[of emitted] obtain ys
      where "emitUnique emitted (filter P hs) = emitted @ ys" "subseq ys hs" "list_all P ys"
      by blast
    with False show ?thesis by (intro exI[of _ ys]) auto
  qed
qed

text \<open>Titles that differ in the case of an accented Latin-1 letter are merged as well.\<close>

lemma combineResults_accented:
  "combineResults [localStory (CHR 0xC9 # ''cole'')] [historicalStory (CHR 0xE9 # ''cole'')]
     = [localStory (CHR 0xC9 # ''cole'')]"
  by (simp add: merge_defs example_defs)

text \<open>
  Claim C2, as stated: \<open>combineResults\<close> emits every historical result whose lower-cased
  title equals that of no result emitted before it. It does not: a historical result with
  the empty title is not emitted although nothing was emitted before it.
\<close>

theorem combineResults_untitled_counterexample:
  "combineResults [] [untitled (TString []) (Some ''batch'')] = [] \<and>
   emitUnique [] [untitled (TString []) (Some ''batch'')] = [untitled (TString []) (Some ''batch'')]"
  by (simp add: merge_defs example_defs)

text \<open>
  Claim C2, amended: for every pair of lists, \<open>combineResults\<close> returns all local results
  first, in their order, followed by exactly those historical results, in source order,
  that have a non-empty title string and whose lower-cased title equals the lower-cased
  title of no result emitted before them; a local result titled \<open>Alpha\<close> and a historical
  result titled \<open>alpha\<close> yield one entry, the local one.
\<close>

theorem combineResults_merge:
  "combineResults l h = emitUnique l (filter hasTitle h) \<and>
   (\<exists>ys. combineResults l h = l @ ys \<and> subseq ys h) \<and>
   combineResults [localStory ''Alpha''] [historicalStory ''alpha''] = [localStory ''Alpha'']"
proof -
  have a: "combineResults l h = emitUnique l (filter hasTitle h)"
    by (rule combineResults_emitUnique)
  have b: "\<exists>ys. combineResults l h = l @ ys \<and> subseq ys h"
    using emitUnique_filter_shape[of l hasTitle h] by (auto simp: combineResults_emitUnique)
  have c: "combineResults [localStory ''Alpha''] [historicalStory ''alpha''] = [localStory ''Alpha'']"
    by (simp add: merge_defs example_defs)
  from a b c show ?thesis by blast
qed

theorem combineResults_merge_witness:
  "combineResults [localStory ''Alpha'']
     [historicalStory ''alpha'', historicalStory ''Beta'', untitled TNull (Some ''batch''),
      historicalStory ''BETA'']
   = [localStory ''Alpha'', historicalStory ''Beta''] \<and>
   emitUnique [localStory ''Alpha'']
     (filter hasTitle
        [historicalStory ''alpha'', historicalStory ''Beta'', untitled TNull (Some ''batch''),
         historicalStory ''BETA''])
   = [localStory ''Alpha'', historicalStory ''Beta'']"
  using combineResults_merge[of "[localStory ''Alpha'']"
      "[historicalStory ''alpha'', historicalStory ''Beta'', untitled TNull (Some ''batch''),
        historicalStory ''BETA'']"]
  by (simp add: merge_defs example_defs)

text \<open>
  Claim C9: for every pair of lists, \<open>combineResults\<close> returns the local results,
  whatever their titles, followed by results taken in order from the historical list,
  none of which has a title that is \<open>undefined\<close>, \<open>null\<close> or the empty string: a
  historical result with such a title is never emitted.
\<close>

theorem combineResults_drops_untitled:
  "\<exists>emitted. combineResults l h = l @ emitted \<and> subseq emitted h \<and>
     list_all (\<lambda>r. title (story r) \<notin> {TUndefined, TNull, TString []}) emitted"
proof -
  obtain ys where ys: "emitUnique l (filter hasTitle h) = l @ ys" "subseq ys h"
      "list_all hasTitle ys"
    using emitUnique_filter_shape by blast
  from ys(3) have "list_all (\<lambda>r. title (story r) \<notin> {TUndefined, TNull, TString []}) ys"
    by (simp add: list_all_iff hasTitle_iff)
  with ys show ?thesis by (auto simp: combineResults_emitUnique)
qed

theorem combineResults_drops_untitled_witness:
  "combineResults [untitled TNull None, untitled (TString []) None]
     [untitled TUndefined (Some ''batch''), untitled TNull (Some ''batch''),
      untitled (TString []) (Some ''batch''), historicalStory ''Gamma'']
   = [untitled TNull None, untitled (TString []) None, historicalStory ''Gamma'']"
  using combineResults_drops_untitled[of "[untitled TNull None, untitled (TString []) None]"
      "[untitled TUndefined (Some ''batch''), untitled TNull (Some ''batch''),
        untitled (TString []) (Some ''batch''), historicalStory ''Gamma'']"]
  by (simp add: merge_defs example_defs)

section \<open>Properties of the selection\<close>

text \<open>
  Claim C10: for every state, \<open>getSelectedResult\<close> returns \<open>null\<close> when \<open>results\<close> is empty
  or \<open>selectedIndex\<close> is not an index of \<open>results\<close>, and the result at \<open>selectedIndex\<close>
  otherwise; being a total function of the state, it has no faulting case.
\<close>

theorem getSelectedResult_total:
  "(results st = [] \<longrightarrow> getSelectedResult st = None) \<and>
   (\<not> (0 \<le> selectedIndex st \<and> selectedIndex st < int (length (results st))) \<longrightarrow>
      getSelectedResult st = None) \<and>
   (0 \<le> selectedIndex st \<and> selectedIndex st < int (length (results st)) \<longrightarrow>
      getSelectedResult st = Some (results st ! nat (selectedIndex st)))"
  by (simp add: getSelectedResult_def jsIndex_def)

theorem getSelectedResult_total_witness:
  "getSelectedResult (initialState\<lparr>selectedIndex := 3\<rparr>) = None \<and>
   getSelectedResult
     (initialState\<lparr>results := [localStory ''a'', localStory ''b''], selectedIndex := 2\<rparr>) = None \<and>
   getSelectedResult
     (initialState\<lparr>results := [localStory ''a'', localStory ''b''], selectedIndex := - 1\<rparr>) = None \<and>
   getSelectedResult
     (initialState\<lparr>results := [localStory ''a'', localStory ''b''], selectedIndex := 1\<rparr>)
     = Some (localStory ''b'')"
  using getSelectedResult_total[of "initialState\<lparr>selectedIndex := 3\<rparr>"]
    getSelectedResult_total[of
      "initialState\<lparr>results := [localStory ''a'', localStory ''b''], selectedIndex := 2\<rparr>"]
    getSelectedResult_total[of
      "initialState\<lparr>results := [localStory ''a'', localStory ''b''], selectedIndex := - 1\<rparr>"]
    getSelectedResult_total[of
      "initialState\<lparr>results := [localStory ''a'', localStory ''b''], selectedIndex := 1\<rparr>"]
  by (simp add: initialState_def)

section \<open>Properties of the orchestrator\<close>

lemma cancelActiveSearch_requestId: "requestId (cancelActiveSearch svc) = requestId svc"
  by (simp add: cancelActiveSearch_def Let_def)

lemma cancelActiveSearch_aborts:
  "abortController svc = Some c \<Longrightarrow> c < length (aborted svc) \<Longrightarrow>
   aborted (cancelActiveSearch svc) ! c \<and>
   length (aborted (cancelActiveSearch svc)) = length (aborted svc)"
  by (simp add: cancelActiveSearch_def Let_def)

text \<open>The states used as examples below are states of runs.\<close>

lemma generationTwoService_reached:
  "run exampleEnv firstSearch newWorld = Some generationOneWorld \<and>
   step exampleEnv (ExecuteSearch noOptions) generationOneWorld = Some generationTwoWorld \<and>
   run exampleEnv secondAnswered generationTwoWorld =
     Some \<lparr>service = generationTwoService,
           inflight = [LocalFetch 1 (Some 0), HistoricalFetch 1 (Some 0), SearchCall 1,
                       SearchCall 2]\<rparr>"
  by (simp add: firstSearch_def secondAnswered_def generationOneWorld_def
      generationTwoWorld_def generationTwoService_def example_defs service_defs run_defs
      merge_defs)

text \<open>
  The two \<open>.then\<close> handlers are guarded by the request id: with a captured id that differs
  from the current one they leave the service as it is and call no callback.
\<close>

lemma stale_handlers_unchanged:
  "rid \<noteq> requestId svc \<Longrightarrow>
   localThen rid res svc = (svc, []) \<and> historicalThen rid res' svc = (svc, [])"
  by (simp add: localThen_def historicalThen_def)

text \<open>
  Claim C1 says that a completion that belongs to a superseded generation never mutates
  \<open>SearchState\<close>. The handlers are guarded, but the rest of \<open>executeSearch\<close>, which resumes
  when the promises of its call have settled, is not (the \<open>catch\<close> block beside it is). At
  the end of \<open>lateArrivalRun\<close> the late answers of generation 1 have been ignored and
  \<open>isLoading\<close> is true, generation 2 being unanswered; the call of generation 1 then
  resumes and sets \<open>isLoading\<close> to false, with both fetches of generation 2 in flight.
\<close>

theorem superseded_call_clears_isLoading:
  "run exampleEnv firstSearch newWorld = Some generationOneWorld \<and>
   run exampleEnv lateArrivalRun newWorld =
     Some \<lparr>service = service generationTwoWorld,
           inflight = [SearchCall 1, LocalFetch 2 (Some 1), HistoricalFetch 2 (Some 1),
                       SearchCall 2]\<rparr> \<and>
   requestId (service generationTwoWorld) = 2 \<and>
   isLoading (state (service generationTwoWorld)) = True \<and>
   run exampleEnv (lateArrivalRun @ [SearchSettled 1]) newWorld =
     Some \<lparr>service =
             \<lparr>state = initialState\<lparr>query := ''abc'', isLoading := False\<rparr>,
              abortController = Some 1, requestId = 2, aborted = [True, False]\<rparr>,
           inflight = [LocalFetch 2 (Some 1), HistoricalFetch 2 (Some 1), SearchCall 2]\<rparr>"
  by (simp add: lateArrivalRun_def firstSearch_def generationOneWorld_def
      generationTwoWorld_def example_defs service_defs run_defs)

text \<open>
  With an empty query and no valid filter, \<open>executeSearch\<close> returns the empty list at once,
  calls the executor neither for a local nor for a historical fetch, and writes only
  \<open>results\<close> and \<open>hasMore\<close>.
\<close>

lemma executeSearch_early_return:
  "query (state svc) = [] \<Longrightarrow> \<not> list_ex isValid (filters (state svc)) \<Longrightarrow>
   executeSearch env opts svc =
     (svc\<lparr>state := (state svc)\<lparr>results := [], hasMore := False\<rparr>\<rparr>, [], Returned [])"
  by (simp add: executeSearch_def)

text \<open>
  Claim C3 says that in every state with an empty query and no filter \<open>executeSearch\<close>
  returns the empty list at once, issues no fetch, and \<open>isLoading\<close> remains false. In
  \<open>busyService\<close>, reached by emptying the input while a search is in flight, the call
  returns the empty list and issues no fetch, but \<open>isLoading\<close> is true before and after
  it: the early return comes before \<open>cancelActiveSearch\<close>, which clears the loading state.
\<close>

theorem empty_search_keeps_isLoading:
  "run exampleEnv emptiedWhileSearching newWorld =
     Some \<lparr>service = busyService,
           inflight = [LocalFetch 1 (Some 0), HistoricalFetch 1 (Some 0), SearchCall 1]\<rparr> \<and>
   query (state busyService) = [] \<and> filters (state busyService) = [] \<and>
   isLoading (state busyService) = True \<and>
   executeSearch exampleEnv noOptions busyService = (busyService, [], Returned []) \<and>
   isLoading (state (fst (executeSearch exampleEnv noOptions busyService))) = True"
  by (simp add: emptiedWhileSearching_def busyService_def example_defs service_defs run_defs)

text \<open>
  Claim C4 says that every call of \<open>executeSearch\<close> and every call of \<open>clear()\<close> cancels
  the controller in flight and increments the generation id, also with an empty query and
  no valid filter. With a search for \<open>abc\<close> in flight and the input emptied since,
  \<open>executeSearch\<close> leaves the request id at 1 and the controller not aborted, so that the
  answers of that search still pass the guards of the handlers and fill \<open>results\<close> and
  \<open>hasMore\<close> for the empty query. \<open>clear()\<close> aborts the controller and leaves the request
  id at 1, so that the local answer of the cleared search still passes the guard.
\<close>

theorem empty_search_keeps_generation:
  "map_option (requestId \<circ> service) (run exampleEnv emptiedWhileSearching newWorld) = Some 1 \<and>
   run exampleEnv (emptiedWhileSearching @ [ExecuteSearch noOptions]) newWorld =
     Some \<lparr>service = busyService,
           inflight = [LocalFetch 1 (Some 0), HistoricalFetch 1 (Some 0), SearchCall 1]\<rparr> \<and>
   requestId busyService = 1 \<and> abortController busyService = Some 0 \<and>
   aborted busyService = [False] \<and>
   run exampleEnv (emptiedWhileSearching @ [ExecuteSearch noOptions] @ answersOfFirst) newWorld =
     Some \<lparr>service =
             \<lparr>state = initialState\<lparr>results := [localStory ''stale'', historicalStory ''old''],
                                    hasMore := True, totalCount := 7,
                                    allHistoricalResults := [historicalStory ''old'']\<rparr>,
              abortController = Some 0, requestId = 1, aborted = [False]\<rparr>,
           inflight = [SearchCall 1]\<rparr> \<and>
   run exampleEnv clearedWhileSearching newWorld =
     Some \<lparr>service =
             \<lparr>state = initialState, abortController = None, requestId = 1, aborted = [True]\<rparr>,
           inflight = [LocalFetch 1 (Some 0), HistoricalFetch 1 (Some 0), SearchCall 1]\<rparr> \<and>
   map_option (results \<circ> state \<circ> service)
     (run exampleEnv
        (clearedWhileSearching @
         [Resolved (LocalFetch 1 (Some 0)) (localAnswer [localStory ''stale''])])
        newWorld) = Some [localStory ''stale'']"
  by (simp add: emptiedWhileSearching_def answersOfFirst_def clearedWhileSearching_def
      busyService_def example_defs service_defs run_defs merge_defs)

text \<open>
  Claim C5: in every state in which \<open>hasMore\<close> is false or \<open>isLoadingMore\<close> is true,
  \<open>loadMoreResults\<close> returns at once: the service is left as it was (\<open>currentOffset\<close>,
  \<open>results\<close>, \<open>allHistoricalResults\<close>, \<open>hasMore\<close> and \<open>totalCount\<close> included), the executor
  is not called, and no continuation is left waiting.
\<close>

theorem loadMoreResults_noop:
  "\<not> hasMore (state svc) \<or> isLoadingMore (state svc) \<Longrightarrow>
   loadMoreResults env svc = (svc, [], None)"
  by (auto simp add: loadMoreResults_def)

theorem loadMoreResults_noop_witness:
  "\<not> hasMore (state generationTwoService) \<and>
   loadMoreResults exampleEnv generationTwoService = (generationTwoService, [], None) \<and>
   isLoadingMore (state (pagingService\<lparr>state := (state pagingService)\<lparr>isLoadingMore := True\<rparr>\<rparr>)) \<and>
   loadMoreResults exampleEnv
     (pagingService\<lparr>state := (state pagingService)\<lparr>isLoadingMore := True\<rparr>\<rparr>)
     = (pagingService\<lparr>state := (state pagingService)\<lparr>isLoadingMore := True\<rparr>\<rparr>, [], None)"
  using loadMoreResults_noop[of generationTwoService exampleEnv]
    loadMoreResults_noop[of
      "pagingService\<lparr>state := (state pagingService)\<lparr>isLoadingMore := True\<rparr>\<rparr>" exampleEnv]
  by (simp add: generationTwoService_def)

text \<open>
  Claim C6 says that \<open>currentOffset\<close> changes only by a reset to 0 at the start of a
  search or by an advance of exactly \<open>DEFAULT_SEARCH_LIMIT\<close>. At the end of \<open>raceRun\<close> the
  offset is 0, and the answer to the second \<open>loadMoreResults\<close> call then sets it to 40,
  with a page size of 20: the call computed its offset before the historical answer of
  the search reset \<open>currentOffset\<close>, and its continuation stores that offset whatever has
  happened since. The page at offset 20 (story \<open>two\<close>) is no longer among the results.
\<close>

theorem loadMore_race_skips_offset:
  "DEFAULT_SEARCH_LIMIT exampleEnv = 20 \<and>
   map_option (currentOffset \<circ> state \<circ> service) (run exampleEnv raceRun newWorld) = Some 0 \<and>
   map_option inflight (run exampleEnv raceRun newWorld) =
     Some [SearchCall 2, MoreFetch 40 (Some 1)] \<and>
   map_option (currentOffset \<circ> state \<circ> service)
     (run exampleEnv
        (raceRun @ [Resolved (MoreFetch 40 (Some 1))
                      (historicalAnswer [historicalStory ''three''] 50 True)])
        newWorld) = Some 40 \<and>
   map_option (results \<circ> state \<circ> service)
     (run exampleEnv
        (raceRun @ [Resolved (MoreFetch 40 (Some 1))
                      (historicalAnswer [historicalStory ''three''] 50 True)])
        newWorld) = Some [historicalStory ''one'', historicalStory ''three'']"
  by (simp add: raceRun_def example_defs service_defs run_defs merge_defs)

text \<open>
  Claim C7 says that \<open>selectedIndex\<close> is a valid index into \<open>results\<close>, or 0 when \<open>results\<close>
  is empty, in every reachable state. At the end of \<open>emptiedRun\<close> it is not: the early
  return of \<open>executeSearch\<close> has emptied \<open>results\<close> and left \<open>selectedIndex\<close> at 1.
\<close>

theorem selectedIndex_stale_after_empty_search:
  "map_option (selectedIndex \<circ> state \<circ> service) (run exampleEnv emptiedRun newWorld) = Some 1 \<and>
   map_option (results \<circ> state \<circ> service) (run exampleEnv emptiedRun newWorld) = Some []"
  by (simp add: emptiedRun_def example_defs service_defs run_defs)

section \<open>Properties of the chip editor\<close>

text \<open>
  Claim C8, as stated: the value of the canonical token is quoted if and only if it
  contains white space of any kind. It is not: the value of \<open>tabSuggestion\<close> contains a
  tab, and the chip built for it carries the token \<open>category:a<TAB>b\<close>, without quotes.
\<close>

theorem applyFilterSuggestion_tab_counterexample:
  "list_ex jsWhiteSpace (s_value tabSuggestion) \<and> \<not> isFilterType tabSuggestion \<and>
   applyFilterSuggestion tabSuggestion categoryContext typingChips =
     (\<lparr>element = Some [Chip (''category:'' @ [CHR ''a'', CHR 0x09, CHR ''b'']) ''category'' ''ab'',
                       TextNode '' ''],
       appliedFilters =
         [(''category:'' @ [CHR ''a'', CHR 0x09, CHR ''b''],
           \<lparr>f_type = ''category'', f_value = [CHR ''a'', CHR 0x09, CHR ''b''],
            f_display = ''ab'', isValid = True\<rparr>)]\<rparr>,
      True)"
  by (simp add: tabSuggestion_def categoryContext_def typingChips_def applyFilterSuggestion_def
      jsWhiteSpace_def replacePartialTextWithChip_def createChip_def completedFilter_def
      displayOf_def substring_def substringFrom_def clampIndex_def Let_def)

text \<open>
  Claim C8, amended: for every accepted value suggestion (\<open>isFilterType\<close> false, an
  element present), \<open>applyFilterSuggestion\<close> succeeds and puts in the element a chip,
  followed by a single space, whose canonical token is \<open>type:value\<close> with the value
  wrapped in double quotes if and only if the value contains a space character (U+0020).
\<close>

theorem applyFilterSuggestion_token:
  "element cs = Some children \<Longrightarrow> \<not> isFilterType sg \<Longrightarrow>
   snd (applyFilterSuggestion sg ctx cs) = True \<and>
   (\<exists>before after.
      element (fst (applyFilterSuggestion sg ctx cs)) =
        Some (before
              @ [Chip (c_type ctx @ '':'' @ quoteIfSpace (s_value sg)) (c_type ctx) (displayOf sg),
                 TextNode '' '']
              @ after)) \<and>
   (quoteIfSpace (s_value sg) = [CHR 0x22] @ s_value sg @ [CHR 0x22]
      \<longleftrightarrow> CHR '' '' \<in> set (s_value sg)) \<and>
   (quoteIfSpace (s_value sg) = s_value sg \<longleftrightarrow> CHR '' '' \<notin> set (s_value sg))"
proof -
  assume a: "element cs = Some children" "\<not> isFilterType sg"
  have tok: "completedFilter ctx sg = c_type ctx @ '':'' @ quoteIfSpace (s_value sg)"
    by (simp add: completedFilter_def quoteIfSpace_def)
  have 1: "snd (applyFilterSuggestion sg ctx cs) = True"
    using a by (simp add: applyFilterSuggestion_def replacePartialTextWithChip_def Let_def)
  define content where "content = concat (map textContent children)"
  define before where "before =
     (if substring content 0 (startIndex ctx) \<noteq> []
      then [TextNode (substring content 0 (startIndex ctx))] else [])"
  define after where "after =
     (if list_ex (\<lambda>c. \<not> jsWhiteSpace c)
           (substringFrom content (startIndex ctx + int (length (fullMatch ctx))))
      then [TextNode (substringFrom content (startIndex ctx + int (length (fullMatch ctx))))]
      else [])"
  have "element (fst (applyFilterSuggestion sg ctx cs)) =
        Some (before
              @ [Chip (c_type ctx @ '':'' @ quoteIfSpace (s_value sg)) (c_type ctx) (displayOf sg),
                 TextNode '' '']
              @ after)"
    using a unfolding before_def after_def content_def
    by (simp add: applyFilterSuggestion_def replacePartialTextWithChip_def Let_def
        createChip_def tok)
  then have 2: "\<exists>before after.
      element (fst (applyFilterSuggestion sg ctx cs)) =
        Some (before
              @ [Chip (c_type ctx @ '':'' @ quoteIfSpace (s_value sg)) (c_type ctx) (displayOf sg),
                 TextNode '' '']
              @ after)"
    by blast
  have 3: "quoteIfSpace (s_value sg) = [CHR 0x22] @ s_value sg @ [CHR 0x22]
      \<longleftrightarrow> CHR '' '' \<in> set (s_value sg)"
    by (simp add: quoteIfSpace_def)
  have 4: "quoteIfSpace (s_value sg) = s_value sg \<longleftrightarrow> CHR '' '' \<notin> set (s_value sg)"
    by (simp add: quoteIfSpace_def)
  from 1 2 3 4 show ?thesis by blast
qed

theorem applyFilterSuggestion_token_witness:
  "element typingChips = Some [TextNode ''category:a''] \<and> \<not> isFilterType spaceSuggestion \<and>
   applyFilterSuggestion spaceSuggestion categoryContext typingChips =
     (\<lparr>element = Some [Chip (''category:'' @ [CHR 0x22] @ ''a b'' @ [CHR 0x22]) ''category'' ''ab'',
                       TextNode '' ''],
       appliedFilters =
         [(''category:'' @ [CHR 0x22] @ ''a b'' @ [CHR 0x22],
           \<lparr>f_type = ''category'', f_value = ''a b'', f_display = ''ab'', isValid = True\<rparr>)]\<rparr>,
      True) \<and>
   quoteIfSpace (s_value spaceSuggestion) = [CHR 0x22] @ ''a b'' @ [CHR 0x22] \<and>
   getText (fst (applyFilterSuggestion spaceSuggestion categoryContext typingChips))
     = ''category:'' @ [CHR 0x22] @ ''a b'' @ [CHR 0x22] @ '' ''"
proof -
  have e: "element typingChips = Some [TextNode ''category:a'']"
    by (simp add: typingChips_def)
  have v: "\<not> isFilterType spaceSuggestion"
    by (simp add: spaceSuggestion_def)
  from applyFilterSuggestion_token[OF e v, of categoryContext] e v show ?thesis
    by (simp add: spaceSuggestion_def categoryContext_def typingChips_def
        applyFilterSuggestion_def jsWhiteSpace_def replacePartialTextWithChip_def createChip_def
        completedFilter_def displayOf_def substring_def substringFrom_def clampIndex_def Let_def
        quoteIfSpace_def getText_def)
qed

end
